theory Spec2Isabelle
  imports Main
begin

section \<open>JavaScript strings\<close>


fun startsWith :: "string \<Rightarrow> string \<Rightarrow> bool" where
  "startsWith s [] = True"
| "startsWith [] (p # ps) = False"
| "startsWith (c # cs) (p # ps) = (c = p \<and> startsWith cs ps)"

fun indexOf :: "string \<Rightarrow> string \<Rightarrow> nat option" where
  "indexOf [] pat = (if pat = [] then Some 0 else None)"
| "indexOf (c # cs) pat =
     (if startsWith (c # cs) pat then Some 0
      else (case indexOf cs pat of None \<Rightarrow> None | Some i \<Rightarrow> Some (Suc i)))"

definition includes_str :: "string \<Rightarrow> string \<Rightarrow> bool" where
  "includes_str s pat = (indexOf s pat \<noteq> None)"

definition endsWith :: "string \<Rightarrow> string \<Rightarrow> bool" where
  "endsWith s suf = startsWith (rev s) (rev suf)"

text \<open>\<open>s.substring(start)\<close> and \<open>s.substring(0, end)\<close>, for indices that are not negative.\<close>

definition substring_from :: "string \<Rightarrow> nat \<Rightarrow> string" where
  "substring_from s start = drop start s"

definition substring :: "string \<Rightarrow> nat \<Rightarrow> nat \<Rightarrow> string" where
  "substring s start stop = take (stop - start) (drop start s)"

text \<open>The case conversions, of the ASCII letters.\<close>

definition toUpperChar :: "char \<Rightarrow> char" where
  "toUpperChar c =
     (let n = (of_char c :: nat) in if 97 \<le> n \<and> n \<le> 122 then char_of (n - 32) else c)"

definition toLowerChar :: "char \<Rightarrow> char" where
  "toLowerChar c =
     (let n = (of_char c :: nat) in if 65 \<le> n \<and> n \<le> 90 then char_of (n + 32) else c)"

definition toUpperCase :: "string \<Rightarrow> string" where
  "toUpperCase s = map toUpperChar s"

definition toLowerCase :: "string \<Rightarrow> string" where
  "toLowerCase s = map toLowerChar s"

section \<open>Node's path module (POSIX flavour)\<close>

text \<open>
  \<open>path.basename(p)\<close>: the last portion of the path, trailing separators ignored.
\<close>

definition isSlash :: "char \<Rightarrow> bool" where
  "isSlash c = (c = CHR ''/'')"

definition basename :: "string \<Rightarrow> string" where
  "basename p = rev (takeWhile (\<lambda>c. \<not> isSlash c) (dropWhile isSlash (rev p)))"

text \<open>
  \<open>path.extname(p)\<close>: from the last dot of the last portion of the path to its end;
  empty when that portion has no dot, when its only dot is its first character, or when
  the portion is \<open>..\<close>.
\<close>

definition extname :: "string \<Rightarrow> string" where
  "extname p =
     (let base = basename p;
          ext = rev (takeWhile (\<lambda>c. c \<noteq> CHR ''.'') (rev base))
      in if CHR ''.'' \<notin> set base then []
         else if Suc (length ext) = length base then []
         else if base = ''..'' then []
         else CHR ''.'' # ext)"

text \<open>
  \<open>path.dirname(p)\<close>: the path up to the separator before its last portion; the first
  character is never examined as a separator.
\<close>

definition dirname :: "string \<Rightarrow> string" where
  "dirname p =
     (case p of
        [] \<Rightarrow> ''.''
      | c # cs \<Rightarrow>
          (let r = dropWhile (\<lambda>c. \<not> isSlash c) (dropWhile isSlash (rev cs))
           in if r = [] then (if isSlash c then ''/'' else ''.'')
              else if isSlash c \<and> length r = 1 then ''//''
              else c # rev (tl r)))"

section \<open>Path deriver\<close>

definition isNextApiRoute :: "string \<Rightarrow> bool" where
  "isNextApiRoute filePath =
     (includes_str filePath ''/pages/api/'' \<or> includes_str filePath ''/app/api/'')"

definition extractApiUrlFromFilePath :: "string \<Rightarrow> string" where
  "extractApiUrlFromFilePath filePath =
     (case indexOf filePath ''/api/'' of
        None \<Rightarrow> []
      | Some apiDirIndex \<Rightarrow>
          (let apiPath = substring_from filePath apiDirIndex;
               extName = extname apiPath;
               apiPath = substring apiPath 0 (length apiPath - length extName);
               apiPath = (if endsWith apiPath ''/index''
                          then substring apiPath 0 (length apiPath - 6) else apiPath);
               apiPath = (if endsWith apiPath ''/route''
                          then substring apiPath 0 (length apiPath - 6) else apiPath)
           in apiPath))"

section \<open>Data model\<close>

text \<open>
  \<open>ApiResource\<close> and the demand record pushed by the client-call detector. The field
  \<open>id\<close> of the source is \<open>res_id\<close> here.
\<close>

record api_resource =
  res_id :: string
  sourceUrl :: string
  sourceHttpMethod :: string
  packageName :: string
  className :: string
  methodName :: string
  supplyType :: string

record api_demand =
  sourceCaller :: string
  targetUrl :: string
  targetHttpMethod :: string

text \<open>
  The structurer's code model: of a \<open>CodeFile\<close> the analyser reads \<open>functions\<close> (here
  \<open>file_functions\<close>), of a \<open>CodeFunction\<close> its \<open>name\<close>.
\<close>

record code_function =
  name :: string

record code_file =
  file_functions :: "code_function list"

text \<open>
  A \<open>CodeFunction\<close> is an object with named properties and has no property \<open>0\<close>:
  \<open>handlerFunction[0]\<close> is \<open>undefined\<close>.
\<close>

definition elem0 :: "code_function \<Rightarrow> string option" where
  "elem0 f = None"

text \<open>
  One capture of a tree-sitter query: \<open>capture.name\<close>, \<open>capture.node.text\<close> and
  \<open>capture.node.startIndex\<close>.
\<close>

record capture =
  cap_name :: string
  node_text :: string
  node_startIndex :: nat

text \<open>
  The pattern query engine is a capability the analyser consumes. The class owns three
  memoized queries; \<open>q.query(language)\<close> gives the compiled query of the language, or
  nothing, and \<open>query.captures(rootNode)\<close> the captures of a syntax node in traversal
  order. The type \<open>'n\<close> is the type of syntax nodes.
\<close>

datatype memoized_query = HttpMethodQuery | AppRouterApiQuery | RestClientQuery

type_synonym 'n compiled_query = "'n \<Rightarrow> capture list"

type_synonym 'n language = "memoized_query \<Rightarrow> 'n compiled_query option"

definition query :: "memoized_query \<Rightarrow> 'n language \<Rightarrow> 'n compiled_query option" where
  "query q lang = lang q"

text \<open>
  The analyser instance: \<open>parser\<close> and \<open>language\<close> are undefined until \<open>init\<close> has run;
  \<open>parser\<close> maps a source text to the root node of its tree, \<open>structurer\<close> is
  \<open>structurer.parseFile\<close>; \<open>resources\<close> and \<open>demands\<close> are the two lists of the instance,
  which the class inherits from \<open>RestApiAnalyser\<close>.
\<close>

record 'n analyser =
  parser :: "(string \<Rightarrow> 'n) option"
  language :: "'n language option"
  structurer :: "string \<Rightarrow> string \<Rightarrow> code_file option"
  resources :: "api_resource list"
  demands :: "api_demand list"

text \<open>The only exception the analyser itself can raise: a property read on \<open>undefined\<close>.\<close>

datatype error = TypeError

section \<open>Method extractor, app-router strategy\<close>

definition validHttpMethods :: "string list" where
  "validHttpMethods = [''GET'', ''POST'', ''PUT'', ''DELETE'', ''PATCH'', ''HEAD'', ''OPTIONS'']"

fun appRouterHttpMethods_loop :: "capture list \<Rightarrow> string list \<Rightarrow> string list" where
  "appRouterHttpMethods_loop [] methods = methods"
| "appRouterHttpMethods_loop (capture # rest) methods =
     (if cap_name capture = ''http-method''
      then (let httpMethod = toUpperCase (node_text capture)
            in if httpMethod \<in> set validHttpMethods
               then appRouterHttpMethods_loop rest (methods @ [httpMethod])
               else appRouterHttpMethods_loop rest methods)
      else appRouterHttpMethods_loop rest methods)"

definition extractAppRouterHttpMethods :: "'n analyser \<Rightarrow> 'n \<Rightarrow> string list" where
  "extractAppRouterHttpMethods this rootNode =
     (case language this of
        None \<Rightarrow> []
      | Some lang \<Rightarrow>
          (case query AppRouterApiQuery lang of
             None \<Rightarrow> []
           | Some q \<Rightarrow> appRouterHttpMethods_loop (q rootNode) []))"

section \<open>Method extractor, pages-router strategy\<close>

text \<open>\<open>text.replace(/['"]/g, '')\<close>: every single and double quote removed.\<close>

definition removeQuotes :: "string \<Rightarrow> string" where
  "removeQuotes s = filter (\<lambda>c. c \<noteq> CHR 0x27 \<and> c \<noteq> CHR 0x22) s"

fun supportedHttpMethods_loop :: "capture list \<Rightarrow> capture list \<Rightarrow> string list \<Rightarrow> string list" where
  "supportedHttpMethods_loop captures [] methods = methods"
| "supportedHttpMethods_loop captures (capture # rest) methods =
     (if cap_name capture = ''method'' \<and> node_text capture = ''method''
      then (case find (\<lambda>c. cap_name c = ''httpMethod'' \<and>
                            node_startIndex c > node_startIndex capture) captures of
              None \<Rightarrow> supportedHttpMethods_loop captures rest methods
            | Some nextCapture \<Rightarrow>
                (let method = toUpperCase (removeQuotes (node_text nextCapture))
                 in if method \<noteq> [] \<and> method \<notin> set methods
                    then supportedHttpMethods_loop captures rest (methods @ [method])
                    else supportedHttpMethods_loop captures rest methods))
      else supportedHttpMethods_loop captures rest methods)"

definition extractSupportedHttpMethods :: "'n analyser \<Rightarrow> 'n \<Rightarrow> string list" where
  "extractSupportedHttpMethods this rootNode =
     (case language this of
        None \<Rightarrow> []
      | Some lang \<Rightarrow>
          (case query HttpMethodQuery lang of
             None \<Rightarrow> []
           | Some q \<Rightarrow> supportedHttpMethods_loop (q rootNode) (q rootNode) []))"

section \<open>Client-call detector\<close>

text \<open>
  \<open>text.replace(/^["'`](.*)["'`]$/, '$1')\<close>: the pattern is anchored at both ends and
  \<open>.\<close> matches no line terminator, so it matches exactly a text of at least two
  characters that starts and ends with a quote character and has no line terminator
  in between; the match is the whole text and is replaced by what lies between.
\<close>

definition isQuote :: "char \<Rightarrow> bool" where
  "isQuote c = (c = CHR 0x22 \<or> c = CHR 0x27 \<or> c = CHR 0x60)"

definition isLineTerminator :: "char \<Rightarrow> bool" where
  "isLineTerminator c = (c = CHR 0x0A \<or> c = CHR 0x0D)"

definition cleanStringLiteral :: "string \<Rightarrow> string" where
  "cleanStringLiteral text =
     (case text of
        [] \<Rightarrow> text
      | q # rest \<Rightarrow>
          (if rest \<noteq> [] \<and> isQuote q \<and> isQuote (last rest) \<and>
              \<not> list_ex isLineTerminator (butlast rest)
           then butlast rest else text))"

record invocation =
  inv_clientName :: string
  inv_methodName :: string
  inv_urlArg :: string

definition emptyInvocation :: invocation where
  "emptyInvocation = \<lparr>inv_clientName = [], inv_methodName = [], inv_urlArg = []\<rparr>"

text \<open>The ladder that maps the lower-cased method name to a verb; empty when none fits.\<close>

definition httpMethodOf :: "string \<Rightarrow> string" where
  "httpMethodOf m =
     (if m = ''get'' then ''GET''
      else if m = ''post'' then ''POST''
      else if m = ''delete'' then ''DELETE''
      else if m = ''put'' then ''PUT''
      else if m = ''patch'' then ''PATCH''
      else [])"

text \<open>
  The loop over the captures, with the accumulator \<open>currentInvocation\<close> and the demand list
  of the instance. \<open>currentFunction.name\<close> is read only when a demand is pushed; with
  \<open>currentFunction\<close> undefined that read throws, and the demands pushed before stay.
\<close>

fun clientUsages_loop ::
  "capture list \<Rightarrow> code_function option \<Rightarrow> invocation \<Rightarrow> api_demand list
     \<Rightarrow> (error + unit) \<times> api_demand list" where
  "clientUsages_loop [] currentFunction currentInvocation ds = (Inr (), ds)"
| "clientUsages_loop (capture # rest) currentFunction currentInvocation ds =
     (if cap_name capture = ''client''
      then clientUsages_loop rest currentFunction
             (currentInvocation\<lparr>inv_clientName := node_text capture\<rparr>) ds
      else if cap_name capture = ''method''
      then clientUsages_loop rest currentFunction
             (currentInvocation\<lparr>inv_methodName := node_text capture\<rparr>) ds
      else if cap_name capture = ''url''
      then (let currentInvocation =
                  currentInvocation\<lparr>inv_urlArg := cleanStringLiteral (node_text capture)\<rparr>
            in if inv_clientName currentInvocation \<noteq> [] \<and>
                  inv_methodName currentInvocation \<noteq> [] \<and>
                  inv_urlArg currentInvocation \<noteq> []
               then (let httpMethod =
                           httpMethodOf (toLowerCase (inv_methodName currentInvocation))
                     in if httpMethod \<noteq> []
                        then (case currentFunction of
                                None \<Rightarrow> (Inl TypeError, ds)
                              | Some f \<Rightarrow>
                                  clientUsages_loop rest currentFunction emptyInvocation
                                    (ds @ [\<lparr>sourceCaller = name f,
                                            targetUrl = inv_urlArg currentInvocation,
                                            targetHttpMethod = httpMethod\<rparr>]))
                        else clientUsages_loop rest currentFunction emptyInvocation ds)
               else clientUsages_loop rest currentFunction currentInvocation ds)
      else clientUsages_loop rest currentFunction currentInvocation ds)"

definition findApiClientUsages ::
  "'n analyser \<Rightarrow> 'n \<Rightarrow> code_function option \<Rightarrow> (error + unit) \<times> 'n analyser" where
  "findApiClientUsages this rootNode currentFunction =
     (case language this of
        None \<Rightarrow> (Inr (), this)
      | Some lang \<Rightarrow>
          (case query RestClientQuery lang of
             None \<Rightarrow> (Inr (), this)
           | Some q \<Rightarrow>
               (case clientUsages_loop (q rootNode) currentFunction emptyInvocation
                       (demands this) of
                  (r, ds) \<Rightarrow> (r, this\<lparr>demands := ds\<rparr>))))"

section \<open>Resource emitter\<close>

text \<open>The record pushed for one HTTP method; \<open>mname\<close> is the handler name it carries.\<close>

definition mkResource :: "string \<Rightarrow> string \<Rightarrow> string \<Rightarrow> string \<Rightarrow> api_resource" where
  "mkResource apiUrl filePath method mname =
     \<lparr>res_id = [],
      sourceUrl = apiUrl,
      sourceHttpMethod = method,
      packageName = dirname filePath,
      className = basename filePath,
      methodName = mname,
      supplyType = ''Nextjs''\<rparr>"

definition emittedHttpMethods :: "string list" where
  "emittedHttpMethods = [''GET'', ''POST'', ''PUT'', ''DELETE'', ''PATCH'']"

text \<open>
  The loop of \<open>analyseNextAppRouterApi\<close> over the extracted methods: a method outside
  the five is skipped; for the others the resource is pushed, the handler is looked up
  by the method's name, and the client-call detector runs with it (found or not).
\<close>

fun appRouterApi_loop ::
  "string list \<Rightarrow> 'n analyser \<Rightarrow> code_file \<Rightarrow> 'n \<Rightarrow> string \<Rightarrow> string
     \<Rightarrow> (error + unit) \<times> 'n analyser" where
  "appRouterApi_loop [] this codeFile rootNode apiUrl filePath = (Inr (), this)"
| "appRouterApi_loop (method # rest) this codeFile rootNode apiUrl filePath =
     (if method \<noteq> ''GET'' \<and> method \<noteq> ''POST'' \<and> method \<noteq> ''PUT'' \<and>
         method \<noteq> ''DELETE'' \<and> method \<noteq> ''PATCH''
      then appRouterApi_loop rest this codeFile rootNode apiUrl filePath
      else (let this = this\<lparr>resources :=
                         resources this @ [mkResource apiUrl filePath method method]\<rparr>;
                handlerFunction = find (\<lambda>f. name f = method) (file_functions codeFile)
            in case findApiClientUsages this rootNode handlerFunction of
                 (Inl e, this) \<Rightarrow> (Inl e, this)
               | (Inr u, this) \<Rightarrow>
                   appRouterApi_loop rest this codeFile rootNode apiUrl filePath))"

definition analyseNextAppRouterApi ::
  "'n analyser \<Rightarrow> code_file \<Rightarrow> 'n \<Rightarrow> string \<Rightarrow> string
     \<Rightarrow> (error + api_resource list) \<times> 'n analyser" where
  "analyseNextAppRouterApi this codeFile rootNode apiUrl filePath =
     (case language this of
        None \<Rightarrow> (Inr [], this)
      | Some lang \<Rightarrow>
          (let this = this\<lparr>resources := []\<rparr>;
               httpMethods = extractAppRouterHttpMethods this rootNode
           in case appRouterApi_loop httpMethods this codeFile rootNode apiUrl filePath of
                (Inl e, this) \<Rightarrow> (Inl e, this)
              | (Inr u, this) \<Rightarrow> (Inr (resources this), this)))"

definition isHandlerName :: "string \<Rightarrow> bool" where
  "isHandlerName n =
     (n = ''handler'' \<or> n = ''GET'' \<or> n = ''POST'' \<or> n = ''PUT'' \<or> n = ''DELETE'' \<or>
      n = ''PATCH'')"

text \<open>\<open>a || b\<close> on values that are a string or undefined.\<close>

definition or_else :: "string option \<Rightarrow> string \<Rightarrow> string" where
  "or_else a b = (case a of None \<Rightarrow> b | Some v \<Rightarrow> if v = [] then b else v)"

definition analyseNextApiRoute ::
  "'n analyser \<Rightarrow> code_file \<Rightarrow> 'n \<Rightarrow> string \<Rightarrow> string
     \<Rightarrow> (error + api_resource list) \<times> 'n analyser" where
  "analyseNextApiRoute this codeFile rootNode apiUrl filePath =
     (case language this of
        None \<Rightarrow> (Inr [], this)
      | Some lang \<Rightarrow>
          (let this = this\<lparr>resources := []\<rparr>
           in case find (\<lambda>f. isHandlerName (name f)) (file_functions codeFile) of
                None \<Rightarrow> (Inr [], this)
              | Some handlerFunction \<Rightarrow>
                  (let supportedMethods = extractSupportedHttpMethods this rootNode;
                       this =
                         (if supportedMethods \<noteq> []
                          then this\<lparr>resources := resources this @
                                 map (\<lambda>method. mkResource apiUrl filePath method
                                        (or_else (elem0 handlerFunction) ''handler''))
                                   supportedMethods\<rparr>
                          else this\<lparr>resources := resources this @
                                 map (\<lambda>method. mkResource apiUrl filePath method
                                        (or_else (Some (name handlerFunction)) ''handler''))
                                   emittedHttpMethods\<rparr>)
                   in case findApiClientUsages this rootNode (Some handlerFunction) of
                        (Inl e, this) \<Rightarrow> (Inl e, this)
                      | (Inr u, this) \<Rightarrow> (Inr (resources this), this))))"

section \<open>The entry point\<close>

text \<open>
  \<open>analyse\<close> returns the resource list or the exception it lets through, with the
  instance as the call leaves it. The warnings written to the console are not modelled;
  the parser and the structurer are taken to return.
\<close>

definition analyse ::
  "'n analyser \<Rightarrow> string \<Rightarrow> string \<Rightarrow> string \<Rightarrow> (error + api_resource list) \<times> 'n analyser" where
  "analyse this sourceCode filePath workspacePath =
     (case (language this, parser this) of
        (Some lang, Some parse) \<Rightarrow>
          (if sourceCode = [] then (Inr [], this)
           else if \<not> isNextApiRoute filePath then (Inr [], this)
           else (case structurer this sourceCode filePath of
                   None \<Rightarrow> (Inr [], this)
                 | Some codeFile \<Rightarrow>
                     (if \<not> endsWith filePath ''route.ts'' \<and> \<not> endsWith filePath ''route.js''
                      then (Inr [], this)
                      else (let rootNode = parse sourceCode;
                                apiUrl = extractApiUrlFromFilePath filePath;
                                isAppRouter = includes_str filePath ''/app/api/''
                            in if isAppRouter
                               then analyseNextAppRouterApi this codeFile rootNode apiUrl filePath
                               else analyseNextApiRoute this codeFile rootNode apiUrl filePath))))
      | _ \<Rightarrow> (Inr [], this))"

section \<open>Example inputs\<close>

text \<open>
  Concrete collaborators for the examples: a syntax node is given by the captures each
  of the three queries has on it, every query compiles, the parser returns the given
  tree and the structurer the given code model.
\<close>

type_synonym example_node = "memoized_query \<Rightarrow> capture list"

definition example_language :: "example_node language" where
  "example_language q = Some (\<lambda>rootNode. rootNode q)"

definition example_analyser :: "example_node \<Rightarrow> code_file \<Rightarrow> example_node analyser" where
  "example_analyser tree codeFile =
     \<lparr>parser = Some (\<lambda>sourceCode. tree),
      language = Some example_language,
      structurer = (\<lambda>sourceCode filePath. Some codeFile),
      resources = [],
      demands = []\<rparr>"

definition mkCapture :: "string \<Rightarrow> string \<Rightarrow> nat \<Rightarrow> capture" where
  "mkCapture n t i = \<lparr>cap_name = n, node_text = t, node_startIndex = i\<rparr>"

text \<open>The source text of a string literal in double quotes, and in single quotes.\<close>

definition dquoted :: "string \<Rightarrow> string" where
  "dquoted s = CHR 0x22 # s @ [CHR 0x22]"

definition squoted :: "string \<Rightarrow> string" where
  "squoted s = CHR 0x27 # s @ [CHR 0x27]"

definition no_captures :: example_node where
  "no_captures q = []"

section \<open>The derivation as the specification words it\<close>



section \<open>Names that spell a verb\<close>




section \<open>Call sites, for stating what the client-call detector emits\<close>

text \<open>
  One match of the client query is a call site \<open>client.method(url, otherArgs)\<close>: a
  capture labelled \<open>client\<close>, one labelled \<open>method\<close>, one labelled \<open>url\<close> and the captures
  of the remaining arguments. \<open>site_literal\<close> is what the URL literal holds between its
  quotes: the text of the \<open>url\<close> capture is \<open>site_literal\<close> in double or in single
  quotes, and the literal is written on one line. The method name and the literal are
  ASCII.
\<close>

record call_site =
  site_client :: capture
  site_method :: capture
  site_url :: capture
  site_otherArgs :: "capture list"
  site_literal :: string




definition callSiteCaptures :: "call_site \<Rightarrow> capture list" where
  "callSiteCaptures s = site_client s # site_method s # site_url s # site_otherArgs s"



text \<open>
  The call sites \<open>api.get("/users/1", opts)\<close>, \<open>api.unknownVerb("/x")\<close> and
  \<open>http.POST('/orders', order)\<close>, and the tree whose client query yields the captures of
  the given call sites.
\<close>

definition site_get_user :: call_site where
  "site_get_user =
     \<lparr>site_client = mkCapture ''client'' ''api'' 40,
      site_method = mkCapture ''method'' ''get'' 44,
      site_url = mkCapture ''url'' (dquoted ''/users/1'') 48,
      site_otherArgs = [mkCapture ''otherArgs'' ''opts'' 60],
      site_literal = ''/users/1''\<rparr>"




section \<open>Exported functions, for stating what the app-router strategy emits\<close>







text \<open>A tree given by the captures of the three queries.\<close>

definition example_tree :: "capture list \<Rightarrow> capture list \<Rightarrow> capture list \<Rightarrow> example_node" where
  "example_tree httpMethodCaptures appRouterCaptures clientCaptures q =
     (case q of
        HttpMethodQuery \<Rightarrow> httpMethodCaptures
      | AppRouterApiQuery \<Rightarrow> appRouterCaptures
      | RestClientQuery \<Rightarrow> clientCaptures)"







section \<open>The lists an instance holds before a call\<close>

text \<open>
  \<open>fresh this\<close> is the instance with both lists empty; \<open>with_prior ds this\<close> is the
  instance with the demands \<open>ds\<close> in front of its own.
\<close>

definition with_prior :: "api_demand list \<Rightarrow> 'n analyser \<Rightarrow> 'n analyser" where
  "with_prior ds this = this\<lparr>demands := ds @ demands this\<rparr>"

definition fresh :: "'n analyser \<Rightarrow> 'n analyser" where
  "fresh this = this\<lparr>resources := [], demands := []\<rparr>"

section \<open>Further example inputs\<close>

text \<open>
  A pages-router file with a function \<open>handler\<close> and no method comparison; a pages-router
  file with a function \<open>GET\<close> whose body tests \<open>req.method === 'POST'\<close>; an app-router
  file that exports both \<open>get\<close> and \<open>GET\<close>; an app-router file that exports \<open>get\<close> and
  calls \<open>api.get("/users/1", opts)\<close>; an app-router file that exports \<open>GET\<close> and makes
  the same call.
\<close>

definition tree_pages_handler :: example_node where
  "tree_pages_handler =
     example_tree [mkCapture ''functionName'' ''handler'' 24]
       [mkCapture ''http-method'' ''handler'' 24] []"

definition file_pages_handler :: code_file where
  "file_pages_handler = \<lparr>file_functions = [\<lparr>name = ''handler''\<rparr>]\<rparr>"

definition tree_pages_GET_post :: example_node where
  "tree_pages_GET_post =
     example_tree
       [mkCapture ''functionName'' ''GET'' 16, mkCapture ''req'' ''req'' 38,
        mkCapture ''method'' ''method'' 42, mkCapture ''httpMethod'' (squoted ''POST'') 53]
       [mkCapture ''http-method'' ''GET'' 16] []"

definition file_GET :: code_file where
  "file_GET = \<lparr>file_functions = [\<lparr>name = ''GET''\<rparr>]\<rparr>"

definition tree_get_GET :: example_node where
  "tree_get_GET =
     example_tree []
       [mkCapture ''http-method'' ''get'' 16, mkCapture ''http-method'' ''GET'' 55] []"

definition file_get_GET :: code_file where
  "file_get_GET = \<lparr>file_functions = [\<lparr>name = ''get''\<rparr>, \<lparr>name = ''GET''\<rparr>]\<rparr>"

definition tree_get_calls :: example_node where
  "tree_get_calls =
     example_tree [] [mkCapture ''http-method'' ''get'' 22] (callSiteCaptures site_get_user)"

definition file_get :: code_file where
  "file_get = \<lparr>file_functions = [\<lparr>name = ''get''\<rparr>]\<rparr>"

definition tree_GET_calls :: example_node where
  "tree_GET_calls =
     example_tree [] [mkCapture ''http-method'' ''GET'' 22] (callSiteCaptures site_get_user)"

section \<open>The route classifier gates the analysis\<close>

text \<open>
  Claim C2: for every file path that has neither \<open>/pages/api/\<close> nor \<open>/app/api/\<close> as a
  substring, \<open>analyse\<close> on an initialized analyser with a non-empty source returns the
  empty resource list; nothing is thrown and the instance is left as it was.
\<close>

theorem analyse_outside_api_dirs:
  assumes "\<not> includes_str filePath ''/pages/api/''"
    and "\<not> includes_str filePath ''/app/api/''"
    and "language this \<noteq> None" and "parser this \<noteq> None" and "sourceCode \<noteq> []"
  shows "analyse this sourceCode filePath workspacePath = (Inr [], this)"
  using assms by (auto simp: analyse_def isNextApiRoute_def split: option.splits)

text \<open>The theorem at a file outside both directories.\<close>

theorem analyse_outside_api_dirs_witness:
  "\<not> includes_str ''/project/src/lib/format.ts'' ''/pages/api/'' \<and>
   \<not> includes_str ''/project/src/lib/format.ts'' ''/app/api/'' \<and>
   language (example_analyser no_captures \<lparr>file_functions = []\<rparr>) \<noteq> None \<and>
   parser (example_analyser no_captures \<lparr>file_functions = []\<rparr>) \<noteq> None \<and>
   ''export const x = 1'' \<noteq> [] \<and>
   analyse (example_analyser no_captures \<lparr>file_functions = []\<rparr>) ''export const x = 1''
     ''/project/src/lib/format.ts'' ''/project'' =
   (Inr [], example_analyser no_captures \<lparr>file_functions = []\<rparr>)"
proof -
  have p1: "\<not> includes_str ''/project/src/lib/format.ts'' ''/pages/api/''"
    by (simp add: includes_str_def)
  have p2: "\<not> includes_str ''/project/src/lib/format.ts'' ''/app/api/''"
    by (simp add: includes_str_def)
  have i1: "language (example_analyser no_captures \<lparr>file_functions = []\<rparr>) \<noteq> None"
    and i2: "parser (example_analyser no_captures \<lparr>file_functions = []\<rparr>) \<noteq> None"
    by (simp_all add: example_analyser_def)
  have s: "''export const x = 1'' \<noteq> []" by simp
  from analyse_outside_api_dirs[OF p1 p2 i1 i2 s, of "''/project''"] p1 p2 i1 i2 s
  show ?thesis by simp
qed

section \<open>Canonical URL paths\<close>

text \<open>
  The first \<open>/api/\<close> of a path whose directory part has none, not even across the
  following separator, lies in the rest of the path.
\<close>

lemma startsWith_api_slash:
  assumes "xs \<noteq> []" and "startsWith (xs @ CHR ''/'' # r) ''/api/''"
  shows "startsWith (xs @ ''/'') ''/api/''"
proof (cases xs)
  case Nil
  with assms show ?thesis by simp
next
  case A: (Cons a as)
  show ?thesis
  proof (cases as)
    case Nil
    with A assms show ?thesis by simp
  next
    case B: (Cons b bs)
    show ?thesis
    proof (cases bs)
      case Nil
      with A B assms show ?thesis by simp
    next
      case C: (Cons c cs)
      show ?thesis
      proof (cases cs)
        case Nil
        with A B C assms show ?thesis by simp
      next
        case D: (Cons d ds)
        show ?thesis
        proof (cases ds)
          case Nil
          with A B C D assms show ?thesis by simp
        next
          case (Cons e es)
          with A B C D assms show ?thesis by simp
        qed
      qed
    qed
  qed
qed

lemma indexOf_after_dir:
  "\<not> includes_str (dir @ ''/'') ''/api/'' \<Longrightarrow>
   indexOf (dir @ CHR ''/'' # r) ''/api/'' =
     (case indexOf (CHR ''/'' # r) ''/api/'' of None \<Rightarrow> None | Some i \<Rightarrow> Some (length dir + i))"
proof (induction dir)
  case Nil
  then show ?case by (simp split: option.splits)
next
  case (Cons c cs)
  from Cons.prems have a: "\<not> startsWith ((c # cs) @ ''/'') ''/api/''"
    and b: "\<not> includes_str (cs @ ''/'') ''/api/''"
    by (auto simp: includes_str_def split: if_splits option.splits)
  from a have "\<not> startsWith ((c # cs) @ CHR ''/'' # r) ''/api/''"
    using startsWith_api_slash[of "c # cs" r] by blast
  then show ?case using Cons.IH[OF b]
    by (simp split: option.splits)
qed

text \<open>
  Claim C8: below a directory without an \<open>/api/\<close> segment, the files
  \<open>pages/api/users/index.ts\<close> and \<open>app/api/users/route.ts\<close> both have the canonical
  path \<open>/api/users\<close>, and so has the path \<open>app/api/users\<close> that is already stripped.
\<close>

theorem extractApiUrlFromFilePath_examples:
  assumes "\<not> includes_str (dir @ ''/'') ''/api/''"
  shows "extractApiUrlFromFilePath (dir @ ''/pages/api/users/index.ts'') = ''/api/users'' \<and>
         extractApiUrlFromFilePath (dir @ ''/app/api/users/route.ts'') = ''/api/users'' \<and>
         extractApiUrlFromFilePath (dir @ ''/app/api/users'') = ''/api/users''"
proof -
  have a: "extractApiUrlFromFilePath (dir @ ''/pages/api/users/index.ts'') = ''/api/users''"
    using indexOf_after_dir[OF assms, of "''pages/api/users/index.ts''"]
    by (simp add: extractApiUrlFromFilePath_def substring_from_def substring_def
        extname_def basename_def isSlash_def endsWith_def)
  have b: "extractApiUrlFromFilePath (dir @ ''/app/api/users/route.ts'') = ''/api/users''"
    using indexOf_after_dir[OF assms, of "''app/api/users/route.ts''"]
    by (simp add: extractApiUrlFromFilePath_def substring_from_def substring_def
        extname_def basename_def isSlash_def endsWith_def)
  have c: "extractApiUrlFromFilePath (dir @ ''/app/api/users'') = ''/api/users''"
    using indexOf_after_dir[OF assms, of "''app/api/users''"]
    by (simp add: extractApiUrlFromFilePath_def substring_from_def substring_def
        extname_def basename_def isSlash_def endsWith_def)
  from a b c show ?thesis by simp
qed

text \<open>The theorem at the directory written \<open>...\<close>, which gives the three paths as quoted.\<close>

theorem extractApiUrlFromFilePath_examples_witness:
  "\<not> includes_str (''...'' @ ''/'') ''/api/'' \<and>
   extractApiUrlFromFilePath ''.../pages/api/users/index.ts'' = ''/api/users'' \<and>
   extractApiUrlFromFilePath ''.../app/api/users/route.ts'' = ''/api/users'' \<and>
   extractApiUrlFromFilePath ''.../app/api/users'' = ''/api/users''"
proof -
  have h: "\<not> includes_str (''...'' @ ''/'') ''/api/''"
    by (simp add: includes_str_def)
  from extractApiUrlFromFilePath_examples[OF h] h show ?thesis by simp
qed

section \<open>The two suffix rules\<close>

text \<open>
  The derivation is called by \<open>analyse\<close> alone, and only with a path that ends with
  \<open>route.ts\<close> or \<open>route.js\<close>: for every other path \<open>analyse\<close> returns before the call.
\<close>

lemma analyse_requires_route_name:
  assumes "\<not> endsWith filePath ''route.ts''" and "\<not> endsWith filePath ''route.js''"
  shows "analyse this sourceCode filePath workspacePath = (Inr [], this)"
  using assms by (simp add: analyse_def split: option.splits)












section \<open>Case conversion and spelling\<close>






section \<open>The client-call detector\<close>










section \<open>What the client-call detector leaves alone\<close>

text \<open>
  With a handler function at hand the detector does not throw, and it changes nothing
  of the instance but the demand list.
\<close>

lemma clientUsages_loop_handler:
  "fst (clientUsages_loop captures (Some f) acc ds) = Inr ()"
  by (induction captures arbitrary: acc ds) (simp_all add: Let_def)

lemma findApiClientUsages_frame:
  "snd (findApiClientUsages this rootNode fn) =
     this\<lparr>demands := demands (snd (findApiClientUsages this rootNode fn))\<rparr>"
  by (simp add: findApiClientUsages_def split: option.splits prod.splits)

lemma findApiClientUsages_resources:
  "resources (snd (findApiClientUsages this rootNode fn)) = resources this"
  by (subst findApiClientUsages_frame) simp

lemma findApiClientUsages_handler:
  "fst (findApiClientUsages this rootNode (Some f)) = Inr ()"
  using clientUsages_loop_handler
  by (auto simp: findApiClientUsages_def split: option.splits prod.splits)
    (metis fst_conv)

section \<open>The app-router strategy\<close>



















section \<open>The file-name check of the entry point\<close>

text \<open>
  Claim C1 says that a pages-router file is analysed whatever its name. The entry point
  returns the empty list for every path that does not end with \<open>route.ts\<close> or
  \<open>route.js\<close>, before it chooses the convention: for
  \<open>/project/pages/api/users/index.ts\<close>, a file below \<open>/pages/api/\<close> and not below
  \<open>/app/api/\<close>, with a function \<open>handler\<close>, the result is empty, although the
  pages-router analysis of the same file yields the five default resources.
\<close>

theorem analyse_rejects_pages_index:
  "includes_str ''/project/pages/api/users/index.ts'' ''/pages/api/'' \<and>
   \<not> includes_str ''/project/pages/api/users/index.ts'' ''/app/api/'' \<and>
   analyse (example_analyser tree_pages_handler file_pages_handler)
     ''export default function handler(req, res) { res.status(200).end() }''
     ''/project/pages/api/users/index.ts'' ''/project'' =
     (Inr [], example_analyser tree_pages_handler file_pages_handler) \<and>
   fst (analyseNextApiRoute (example_analyser tree_pages_handler file_pages_handler)
          file_pages_handler tree_pages_handler
          (extractApiUrlFromFilePath ''/project/pages/api/users/index.ts'')
          ''/project/pages/api/users/index.ts'') =
     Inr (map (\<lambda>m. mkResource ''/api/users'' ''/project/pages/api/users/index.ts'' m ''handler'')
            [''GET'', ''POST'', ''PUT'', ''DELETE'', ''PATCH''])"
proof -
  have 1: "includes_str ''/project/pages/api/users/index.ts'' ''/pages/api/''"
    by (simp add: includes_str_def)
  have 2: "\<not> includes_str ''/project/pages/api/users/index.ts'' ''/app/api/''"
    by (simp add: includes_str_def)
  have 3: "analyse (example_analyser tree_pages_handler file_pages_handler)
     ''export default function handler(req, res) { res.status(200).end() }''
     ''/project/pages/api/users/index.ts'' ''/project'' =
     (Inr [], example_analyser tree_pages_handler file_pages_handler)"
    using 1 by (simp add: analyse_def isNextApiRoute_def example_analyser_def endsWith_def)
  have 4: "fst (analyseNextApiRoute (example_analyser tree_pages_handler file_pages_handler)
          file_pages_handler tree_pages_handler
          (extractApiUrlFromFilePath ''/project/pages/api/users/index.ts'')
          ''/project/pages/api/users/index.ts'') =
     Inr (map (\<lambda>m. mkResource ''/api/users'' ''/project/pages/api/users/index.ts'' m ''handler'')
            [''GET'', ''POST'', ''PUT'', ''DELETE'', ''PATCH''])"
    by code_simp
  from 1 2 3 4 show ?thesis by blast
qed

section \<open>The pages-router strategy\<close>

lemma supportedHttpMethods_loop_distinct:
  "distinct methods \<Longrightarrow> distinct (supportedHttpMethods_loop captures rest methods)"
  by (induction rest arbitrary: methods) (auto simp: Let_def split: option.splits)

lemma extractSupportedHttpMethods_distinct:
  "distinct (extractSupportedHttpMethods this rootNode)"
  by (simp add: extractSupportedHttpMethods_def supportedHttpMethods_loop_distinct
      split: option.splits)

lemma analyseNextApiRoute_distinct_methods:
  assumes "fst (analyseNextApiRoute this codeFile rootNode apiUrl filePath) = Inr rs"
    and "language this \<noteq> None"
  shows "distinct (map sourceHttpMethod rs)"
proof -
  from assms(2) obtain lang where l: "language this = Some lang" by auto
  have ex: "extractSupportedHttpMethods (this\<lparr>resources := []\<rparr>) rootNode =
            extractSupportedHttpMethods this rootNode"
    by (simp add: extractSupportedHttpMethods_def)
  have m: "map sourceHttpMethod (map (\<lambda>method. mkResource apiUrl filePath method n) ms) = ms" for n ms
    by (induction ms) (simp_all add: mkResource_def)
  show ?thesis
  proof (cases "find (\<lambda>f. isHandlerName (name f)) (file_functions codeFile)")
    case None
    with assms(1) l show ?thesis by (auto simp: analyseNextApiRoute_def)
  next
    case (Some h)
    show ?thesis
    proof (cases "extractSupportedHttpMethods this rootNode = []")
      case True
      with assms(1) l Some ex
      have "rs = map (\<lambda>method. mkResource apiUrl filePath method
                 (or_else (Some (name h)) ''handler'')) emittedHttpMethods"
        using findApiClientUsages_resources[of
            "this\<lparr>resources := map (\<lambda>method. mkResource apiUrl filePath method
                 (or_else (Some (name h)) ''handler'')) emittedHttpMethods\<rparr>" rootNode "Some h"]
        by (auto simp: analyseNextApiRoute_def Let_def split: prod.splits sum.splits)
      then have "map sourceHttpMethod rs = emittedHttpMethods"
        using m[of "or_else (Some (name h)) ''handler''" emittedHttpMethods] by simp
      then show ?thesis by (simp add: emittedHttpMethods_def)
    next
      case False
      with assms(1) l Some ex
      have "rs = map (\<lambda>method. mkResource apiUrl filePath method
                 (or_else (elem0 h) ''handler'')) (extractSupportedHttpMethods this rootNode)"
        using findApiClientUsages_resources[of
            "this\<lparr>resources := map (\<lambda>method. mkResource apiUrl filePath method
                 (or_else (elem0 h) ''handler'')) (extractSupportedHttpMethods this rootNode)\<rparr>" rootNode "Some h"]
        by (auto simp: analyseNextApiRoute_def Let_def split: prod.splits sum.splits)
      then have "map sourceHttpMethod rs = extractSupportedHttpMethods this rootNode"
        using m[of "or_else (elem0 h) ''handler''" "extractSupportedHttpMethods this rootNode"]
        by simp
      then show ?thesis by (simp add: extractSupportedHttpMethods_distinct)
    qed
  qed
qed

text \<open>
  What the pages-router analysis returns once a handler function is located: one
  resource per extracted method, all named \<open>handler\<close>, or one per default method, all
  carrying the name of the located function.
\<close>

lemma isHandlerName_or_else:
  "isHandlerName n \<Longrightarrow> or_else (Some n) ''handler'' = n"
  by (auto simp: isHandlerName_def or_else_def)

lemma analyseNextApiRoute_resources:
  assumes "language this = Some lang"
    and "find (\<lambda>f. isHandlerName (name f)) (file_functions codeFile) = Some h"
  shows "fst (analyseNextApiRoute this codeFile rootNode apiUrl filePath) =
           Inr (if extractSupportedHttpMethods this rootNode \<noteq> []
                then map (\<lambda>m. mkResource apiUrl filePath m ''handler'')
                       (extractSupportedHttpMethods this rootNode)
                else map (\<lambda>m. mkResource apiUrl filePath m (name h)) emittedHttpMethods)"
proof -
  have ex: "extractSupportedHttpMethods (this\<lparr>resources := []\<rparr>) rootNode =
            extractSupportedHttpMethods this rootNode"
    by (simp add: extractSupportedHttpMethods_def)
  from assms(2) have "isHandlerName (name h)" by (auto simp: find_Some_iff)
  then have n: "or_else (Some (name h)) ''handler'' = name h" by (rule isHandlerName_or_else)
  have e: "or_else (elem0 h) ''handler'' = ''handler''" by (simp add: or_else_def elem0_def)
  have ok: "fst (findApiClientUsages t rootNode (Some h)) = Inr ()" for t :: "'a analyser"
    by (rule findApiClientUsages_handler)
  have rs: "resources (snd (findApiClientUsages t rootNode (Some h))) = resources t"
    for t :: "'a analyser"
    by (rule findApiClientUsages_resources)
  show ?thesis
  proof (cases "extractSupportedHttpMethods this rootNode = []")
    case True
    define t where "t = this\<lparr>resources := map (\<lambda>method. mkResource apiUrl filePath method
                 (name h)) emittedHttpMethods\<rparr>"
    have "analyseNextApiRoute this codeFile rootNode apiUrl filePath =
            (case findApiClientUsages t rootNode (Some h) of
               (Inl e, this) \<Rightarrow> (Inl e, this)
             | (Inr u, this) \<Rightarrow> (Inr (resources this), this))"
      using assms True ex by (simp add: analyseNextApiRoute_def Let_def n t_def)
    with ok[of t] rs[of t] True show ?thesis
      by (auto simp: t_def split: prod.splits sum.splits)
  next
    case False
    define t where "t = this\<lparr>resources := map (\<lambda>method. mkResource apiUrl filePath method
                 ''handler'') (extractSupportedHttpMethods this rootNode)\<rparr>"
    have "analyseNextApiRoute this codeFile rootNode apiUrl filePath =
            (case findApiClientUsages t rootNode (Some h) of
               (Inl e, this) \<Rightarrow> (Inl e, this)
             | (Inr u, this) \<Rightarrow> (Inr (resources this), this))"
      using assms False ex by (simp add: analyseNextApiRoute_def Let_def e t_def)
    with ok[of t] rs[of t] False show ?thesis
      by (auto simp: t_def split: prod.splits sum.splits)
  qed
qed

text \<open>
  Claim C4 says that every resource of a pages-router file carries the name of the
  located handler function. With an explicit method comparison the code reads
  \<open>handlerFunction[0]\<close>, which is undefined, and falls back to \<open>handler\<close>: for a file whose
  handler is the function \<open>GET\<close> and whose body tests for \<open>POST\<close>, the one resource
  carries the name \<open>handler\<close>.
\<close>

theorem analyseNextApiRoute_names_handler:
  "find (\<lambda>f. isHandlerName (name f)) (file_functions file_GET) = Some \<lparr>name = ''GET''\<rparr> \<and>
   fst (analyseNextApiRoute (example_analyser tree_pages_GET_post file_GET) file_GET
          tree_pages_GET_post ''/api/users'' ''/project/pages/api/users.ts'') =
     Inr [mkResource ''/api/users'' ''/project/pages/api/users.ts'' ''POST'' ''handler'']"
  by code_simp

section \<open>Duplicate methods in an app-router file\<close>

text \<open>
  Claim C6 says that no two resources of one result share an HTTP method. The app-router
  strategy upper-cases the exported names and does not deduplicate them: for a file that
  exports \<open>get\<close> and \<open>GET\<close> the result has two resources with method \<open>GET\<close>.
\<close>

theorem analyse_duplicate_method:
  "fst (analyse (example_analyser tree_get_GET file_get_GET)
          ''export function get() {} export function GET() {}''
          ''/project/app/api/users/route.ts'' ''/project'') =
     Inr [mkResource ''/api/users'' ''/project/app/api/users/route.ts'' ''GET'' ''GET'',
          mkResource ''/api/users'' ''/project/app/api/users/route.ts'' ''GET'' ''GET'']"
  by code_simp

section \<open>An exception out of the entry point\<close>

text \<open>
  Claim C9 says that no exception leaves \<open>analyse\<close>. For an app-router file that
  exports \<open>get\<close> and calls \<open>api.get("/users/1", opts)\<close>, the method is \<open>GET\<close>, the code
  model has no function of that name, the client-call detector runs with an undefined
  function and throws when it reads its name for the demand.
\<close>

theorem analyse_throws:
  "fst (analyse (example_analyser tree_get_calls file_get)
          ''export function get() { return api.get(\"/users/1\", opts) }''
          ''/project/app/api/users/route.ts'' ''/project'') = Inl TypeError"
  by code_simp

section \<open>What a call keeps of the calls before it\<close>

lemma clientUsages_loop_prior:
  "clientUsages_loop captures fn acc (ds @ ds') =
     (fst (clientUsages_loop captures fn acc ds'), ds @ snd (clientUsages_loop captures fn acc ds'))"
  by (induction captures arbitrary: acc ds') (auto simp: Let_def split: option.splits)

lemma findApiClientUsages_prior:
  "findApiClientUsages (with_prior ds this) rootNode fn =
     (fst (findApiClientUsages this rootNode fn),
      with_prior ds (snd (findApiClientUsages this rootNode fn)))"
  by (auto simp: findApiClientUsages_def with_prior_def clientUsages_loop_prior
      split: option.splits prod.splits)

lemma with_prior_resources:
  "(with_prior ds this)\<lparr>resources := rs\<rparr> = with_prior ds (this\<lparr>resources := rs\<rparr>)"
  "resources (with_prior ds this) = resources this"
  "language (with_prior ds this) = language this"
  "parser (with_prior ds this) = parser this"
  "structurer (with_prior ds this) = structurer this"
  by (simp_all add: with_prior_def)

lemma appRouterApi_loop_prior:
  "appRouterApi_loop methods (with_prior ds this) codeFile rootNode apiUrl filePath =
     (fst (appRouterApi_loop methods this codeFile rootNode apiUrl filePath),
      with_prior ds (snd (appRouterApi_loop methods this codeFile rootNode apiUrl filePath)))"
proof (induction methods arbitrary: this)
  case Nil
  then show ?case by simp
next
  case (Cons verb verbs)
  show ?case
    by (simp add: with_prior_resources findApiClientUsages_prior Cons.IH Let_def
        split: prod.splits sum.splits)
qed

lemma extractAppRouterHttpMethods_prior:
  "extractAppRouterHttpMethods (with_prior ds this) rootNode =
     extractAppRouterHttpMethods this rootNode"
  by (simp add: extractAppRouterHttpMethods_def with_prior_resources)

lemma extractSupportedHttpMethods_prior:
  "extractSupportedHttpMethods (with_prior ds this) rootNode =
     extractSupportedHttpMethods this rootNode"
  by (simp add: extractSupportedHttpMethods_def with_prior_resources)

lemma analyseNextAppRouterApi_prior:
  "analyseNextAppRouterApi (with_prior ds this) codeFile rootNode apiUrl filePath =
     (fst (analyseNextAppRouterApi this codeFile rootNode apiUrl filePath),
      with_prior ds (snd (analyseNextAppRouterApi this codeFile rootNode apiUrl filePath)))"
  by (simp add: analyseNextAppRouterApi_def with_prior_resources appRouterApi_loop_prior
      extractAppRouterHttpMethods_prior Let_def split: option.splits prod.splits sum.splits)

lemma analyseNextApiRoute_prior:
  "analyseNextApiRoute (with_prior ds this) codeFile rootNode apiUrl filePath =
     (fst (analyseNextApiRoute this codeFile rootNode apiUrl filePath),
      with_prior ds (snd (analyseNextApiRoute this codeFile rootNode apiUrl filePath)))"
  by (simp add: analyseNextApiRoute_def with_prior_resources findApiClientUsages_prior
      extractSupportedHttpMethods_prior Let_def split: option.splits prod.splits sum.splits)

lemma analyse_prior:
  "analyse (with_prior ds this) sourceCode filePath workspacePath =
     (fst (analyse this sourceCode filePath workspacePath),
      with_prior ds (snd (analyse this sourceCode filePath workspacePath)))"
  by (simp add: analyse_def with_prior_resources analyseNextAppRouterApi_prior
      analyseNextApiRoute_prior Let_def split: option.splits prod.splits sum.splits)

lemma analyseNextAppRouterApi_reset:
  "language this \<noteq> None \<Longrightarrow>
   analyseNextAppRouterApi (this\<lparr>resources := rs\<rparr>) codeFile rootNode apiUrl filePath =
     analyseNextAppRouterApi (this\<lparr>resources := []\<rparr>) codeFile rootNode apiUrl filePath"
  by (auto simp: analyseNextAppRouterApi_def extractAppRouterHttpMethods_def)

lemma analyseNextApiRoute_reset:
  "language this \<noteq> None \<Longrightarrow>
   analyseNextApiRoute (this\<lparr>resources := rs\<rparr>) codeFile rootNode apiUrl filePath =
     analyseNextApiRoute (this\<lparr>resources := []\<rparr>) codeFile rootNode apiUrl filePath"
  by (auto simp: analyseNextApiRoute_def extractSupportedHttpMethods_def)

lemma analyse_reset:
  "fst (analyse (this\<lparr>resources := rs\<rparr>) sourceCode filePath workspacePath) =
     fst (analyse (this\<lparr>resources := []\<rparr>) sourceCode filePath workspacePath) \<and>
   demands (snd (analyse (this\<lparr>resources := rs\<rparr>) sourceCode filePath workspacePath)) =
     demands (snd (analyse (this\<lparr>resources := []\<rparr>) sourceCode filePath workspacePath))"
  using analyseNextAppRouterApi_reset[where this = this and rs = rs]
    analyseNextApiRoute_reset[where this = this and rs = rs]
  by (auto simp: analyse_def Let_def split: option.splits)

text \<open>
  Claim C10, as the code has it: the value a call returns does not depend on the lists
  the instance held before the call, and the demand list of the instance after the call
  is the demand list before the call followed by the demands a fresh instance collects
  from the same inputs; the list is never emptied.
\<close>

theorem analyse_demands_accumulate:
  "fst (analyse this sourceCode filePath workspacePath) =
     fst (analyse (fresh this) sourceCode filePath workspacePath) \<and>
   demands (snd (analyse this sourceCode filePath workspacePath)) =
     demands this @ demands (snd (analyse (fresh this) sourceCode filePath workspacePath))"
proof -
  have "this = with_prior (demands this) ((fresh this)\<lparr>resources := resources this\<rparr>)"
    by (simp add: with_prior_def fresh_def)
  then have "analyse this sourceCode filePath workspacePath =
    (fst (analyse ((fresh this)\<lparr>resources := resources this\<rparr>) sourceCode filePath workspacePath),
      with_prior (demands this) (snd (analyse ((fresh this)\<lparr>resources := resources this\<rparr>) sourceCode filePath workspacePath)))"
    using analyse_prior[of "demands this" "(fresh this)\<lparr>resources := resources this\<rparr>"]
    by simp
  moreover have "(fresh this)\<lparr>resources := []\<rparr> = fresh this"
    by (simp add: fresh_def)
  ultimately show ?thesis
    using analyse_reset[where this = "fresh this" and rs = "resources this"]
    by (simp add: with_prior_def)
qed

text \<open>
  The theorem at an instance that holds one demand of an earlier call: the call returns
  the resource of the file, and the earlier demand stays in front of the new one.
\<close>

theorem analyse_demands_accumulate_witness:
  "fst (analyse ((example_analyser tree_GET_calls file_GET)
                   \<lparr>demands := [\<lparr>sourceCaller = ''handler'', targetUrl = ''/orders'',
                                 targetHttpMethod = ''POST''\<rparr>]\<rparr>)
          ''export function GET() { return api.get(\"/users/1\", opts) }''
          ''/project/app/api/users/route.ts'' ''/project'') =
     Inr [mkResource ''/api/users'' ''/project/app/api/users/route.ts'' ''GET'' ''GET''] \<and>
   demands (snd (analyse ((example_analyser tree_GET_calls file_GET)
                   \<lparr>demands := [\<lparr>sourceCaller = ''handler'', targetUrl = ''/orders'',
                                 targetHttpMethod = ''POST''\<rparr>]\<rparr>)
          ''export function GET() { return api.get(\"/users/1\", opts) }''
          ''/project/app/api/users/route.ts'' ''/project'')) =
     [\<lparr>sourceCaller = ''handler'', targetUrl = ''/orders'', targetHttpMethod = ''POST''\<rparr>,
      \<lparr>sourceCaller = ''GET'', targetUrl = ''/users/1'', targetHttpMethod = ''GET''\<rparr>]"
proof -
  let ?A = "example_analyser tree_GET_calls file_GET"
  let ?d = "\<lparr>sourceCaller = ''handler'', targetUrl = ''/orders'', targetHttpMethod = ''POST''\<rparr>"
  let ?S = "''export function GET() { return api.get(\"/users/1\", opts) }''"
  have f: "fresh (?A\<lparr>demands := [?d]\<rparr>) = ?A"
    by (simp add: fresh_def example_analyser_def)
  have p: "demands (?A\<lparr>demands := [?d]\<rparr>) = [?d]" by simp
  have r: "fst (analyse ?A ?S ''/project/app/api/users/route.ts'' ''/project'') =
             Inr [mkResource ''/api/users'' ''/project/app/api/users/route.ts'' ''GET'' ''GET'']"
    by code_simp
  have d: "demands (snd (analyse ?A ?S ''/project/app/api/users/route.ts'' ''/project'')) =
             [\<lparr>sourceCaller = ''GET'', targetUrl = ''/users/1'', targetHttpMethod = ''GET''\<rparr>]"
    by code_simp
  from analyse_demands_accumulate[of "?A\<lparr>demands := [?d]\<rparr>" ?S
      "''/project/app/api/users/route.ts''" "''/project''"]
  show ?thesis unfolding f p r d by simp
qed

text \<open>
  Claim C10 as stated fails: two calls with the same inputs, one after the other on the
  same instance, leave different demand lists; the second list still holds the demand
  of the first call.
\<close>

theorem analyse_demands_carry_over:
  "demands (snd (analyse (example_analyser tree_GET_calls file_GET)
                   ''export function GET() { return api.get(\"/users/1\", opts) }''
                   ''/project/app/api/users/route.ts'' ''/project'')) =
     [\<lparr>sourceCaller = ''GET'', targetUrl = ''/users/1'', targetHttpMethod = ''GET''\<rparr>] \<and>
   demands (snd (analyse
                   (snd (analyse (example_analyser tree_GET_calls file_GET)
                           ''export function GET() { return api.get(\"/users/1\", opts) }''
                           ''/project/app/api/users/route.ts'' ''/project''))
                   ''export function GET() { return api.get(\"/users/1\", opts) }''
                   ''/project/app/api/users/route.ts'' ''/project'')) =
     [\<lparr>sourceCaller = ''GET'', targetUrl = ''/users/1'', targetHttpMethod = ''GET''\<rparr>,
      \<lparr>sourceCaller = ''GET'', targetUrl = ''/users/1'', targetHttpMethod = ''GET''\<rparr>]"
  by code_simp


end
